theory Spec2Isabelle
  imports Complex_Main
begin

section \<open>Values of the runtime\<close>

text \<open>
  A public key is represented by its base-58 text, so \<open>toString()\<close> of a key is the key
  itself. A thrown value is either an \<open>Error\<close> object (with its \<open>message\<close>) or any other
  value (with the text \<open>String(value)\<close> gives it).

  The numbers of the runtime are IEEE doubles. They are a type \<open>'n\<close> here, and their
  operations are taken from the runtime as they are: the tool below holds the division,
  the addition, the comparison and the two ways of printing that \<open>_call\<close> uses, so nothing
  proved depends on how a double is rounded. Amounts the ledger returns are lamports,
  whole numbers.
\<close>

type_synonym pubkey = string
type_synonym signature = string

datatype thrown = Error (message: string) | NonError (thrown_value: string)

text \<open>What the program does to the outside: the calls of the ledger client, in the order
  they are issued, the values it prints and the waits of the loop (milliseconds).\<close>

datatype 'n event =
    GetBalance pubkey
  | Transfer pubkey 'n
  | ConfirmTransaction signature
  | Log string
  | Sleep nat

definition LAMPORTS_PER_SOL :: nat where
  "LAMPORTS_PER_SOL = 1000000000"

subsection \<open>Strings\<close>

fun startsWith :: "string \<Rightarrow> string \<Rightarrow> bool" where
  "startsWith s [] = True"
| "startsWith [] (c # cs) = False"
| "startsWith (d # ds) (c # cs) = (d = c \<and> startsWith ds cs)"

text \<open>\<open>s.includes(sub)\<close>: \<open>sub\<close> occurs in \<open>s\<close> at some position.\<close>

fun str_includes :: "string \<Rightarrow> string \<Rightarrow> bool" where
  "str_includes [] sub = (sub = [])"
| "str_includes (d # ds) sub = (startsWith (d # ds) sub \<or> str_includes ds sub)"

definition lower_char :: "char \<Rightarrow> char" where
  "lower_char c =
     (case map_of (zip ''ABCDEFGHIJKLMNOPQRSTUVWXYZ'' ''abcdefghijklmnopqrstuvwxyz'') c of
        None \<Rightarrow> c
      | Some d \<Rightarrow> d)"

text \<open>\<open>toLowerCase()\<close> on the ASCII letters; other bytes are left as they are.\<close>

definition toLowerCase :: "string \<Rightarrow> string" where
  "toLowerCase s = map lower_char s"

definition nl :: string where
  "nl = [CHR 0x0A]"

definition dquote :: string where
  "dquote = [CHR 0x22]"

text \<open>The two emoji of the replies, as their UTF-8 bytes (U+1F64F and U+2705).\<close>

definition folded_hands :: string where
  "folded_hands = [CHR 0xF0, CHR 0x9F, CHR 0x99, CHR 0x8F]"

definition check_mark :: string where
  "check_mark = [CHR 0xE2, CHR 0x9C, CHR 0x85]"

section \<open>BalanceMonitorTool\<close>

text \<open>
  The tool with what it holds and what it calls. The ledger is a state \<open>'w\<close> that every
  call of the client may change; each call returns its value or the value it throws.
  \<^item> \<open>getBalance\<close>, \<open>confirmTransaction\<close>: the connection (the commitment level is the
    constant \<open>'confirmed'\<close>); \<open>getBalance\<close> returns lamports;
  \<^item> \<open>wallet_publicKey\<close>, \<open>transfer\<close>: the agent kit (\<open>solanaAgent.wallet.publicKey\<close>);
  \<^item> \<open>PublicKey\<close>: the address constructor \<open>new PublicKey(input)\<close> of the client library;
  \<^item> \<open>number_divide a b\<close>: the number \<open>a / b\<close> of two whole numbers; \<open>number_add\<close>: \<open>+\<close>;
    \<open>number_less\<close>: \<open><\<close>; \<open>number_literal\<close>: the number a decimal literal of the source
    denotes;
  \<^item> \<open>toFixed f x\<close>: \<open>x.toFixed(f)\<close>; \<open>numberToString\<close>: the text the runtime gives a number
    inside a template string.
\<close>

record ('w, 'n) BalanceMonitorTool =
  getBalance :: "pubkey \<Rightarrow> 'w \<Rightarrow> (thrown + nat) \<times> 'w"
  confirmTransaction :: "signature \<Rightarrow> 'w \<Rightarrow> (thrown + unit) \<times> 'w"
  wallet_publicKey :: pubkey
  transfer :: "pubkey \<Rightarrow> 'n \<Rightarrow> 'w \<Rightarrow> (thrown + signature) \<times> 'w"
  PublicKey :: "string \<Rightarrow> thrown + pubkey"
  number_divide :: "nat \<Rightarrow> nat \<Rightarrow> 'n"
  number_add :: "'n \<Rightarrow> 'n \<Rightarrow> 'n"
  number_less :: "'n \<Rightarrow> 'n \<Rightarrow> bool"
  number_literal :: "rat \<Rightarrow> 'n"
  toFixed :: "nat \<Rightarrow> 'n \<Rightarrow> string"
  numberToString :: "'n \<Rightarrow> string"
  minBalanceSol :: 'n
  topUpAmountSol :: 'n
  defaultWallet :: pubkey

text \<open>\<open>balance / LAMPORTS_PER_SOL\<close> (lines 39, 49 and 71) and
  \<open>this.topUpAmountSol + 0.000005\<close> (lines 52 and 78).\<close>

definition inSol :: "('w, 'n) BalanceMonitorTool \<Rightarrow> nat \<Rightarrow> 'n" where
  "inSol t balance = number_divide t balance LAMPORTS_PER_SOL"

definition requiredAmount :: "('w, 'n) BalanceMonitorTool \<Rightarrow> 'n" where
  "requiredAmount t = number_add t (topUpAmountSol t) (number_literal t (5 / 1000000))"

subsection \<open>The replies of \<open>src/tools/BalanceMonitorTool.ts\<close>\<close>

text \<open>One definition for each \<open>return\<close> of \<open>_call\<close>, named after the outcome it reports.\<close>

definition current_balance_message :: "('w, 'n) BalanceMonitorTool \<Rightarrow> 'n \<Rightarrow> string" where
  "current_balance_message t balanceInSol =
     ''Current balance: '' @ toFixed t 4 balanceInSol @ '' SOL''"

definition insufficient_funds_reply ::
  "('w, 'n) BalanceMonitorTool \<Rightarrow> string \<Rightarrow> 'n \<Rightarrow> pubkey \<Rightarrow> string"
where
  "insufficient_funds_reply t balanceMessage required sourceWallet =
     balanceMessage @ nl @ nl @ ''I need some SOL to keep operating! '' @ folded_hands @ nl @
     ''Please send at least '' @ toFixed t 6 required @ '' SOL to my address:'' @ nl @
     sourceWallet @ nl @ nl @
     ''This amount includes transaction fees. Once you've sent the SOL, let me know by saying '' @
     dquote @ ''check balance'' @ dquote @
     '' and I'll verify the funds and proceed with the top-up.''"

definition my_wallet_balance_message ::
  "('w, 'n) BalanceMonitorTool \<Rightarrow> string \<Rightarrow> 'n \<Rightarrow> string"
where
  "my_wallet_balance_message t balanceMessage sourceBalanceInSol =
     balanceMessage @ nl @ ''My wallet balance: '' @ toFixed t 4 sourceBalanceInSol @ '' SOL''"

definition topped_up_reply :: "('w, 'n) BalanceMonitorTool \<Rightarrow> string \<Rightarrow> 'n \<Rightarrow> string" where
  "topped_up_reply t balanceMessage newBalanceInSol =
     balanceMessage @ nl @ ''Transfer successful! '' @ check_mark @ nl @
     ''New balance: '' @ toFixed t 4 newBalanceInSol @ '' SOL''"

definition fee_shortfall_reply :: "string \<Rightarrow> string \<Rightarrow> string" where
  "fee_shortfall_reply balanceMessage amount =
     balanceMessage @ nl @ nl @
     ''Oops! I don't have quite enough SOL for the transfer and fees. Please send a bit more SOL ('' @
     amount @ '' SOL total) to cover the transaction fees.''"

definition funds_not_arrived_reply :: "string \<Rightarrow> string" where
  "funds_not_arrived_reply balanceMessage =
     balanceMessage @ nl @ nl @
     ''Hmm, it seems the funds haven't arrived yet. Are you sure you sent the SOL? '' @
     ''Please verify and let me know by saying '' @ dquote @ ''check balance'' @ dquote @ '' again.''"

definition transfer_failed_reply :: "string \<Rightarrow> string \<Rightarrow> string" where
  "transfer_failed_reply balanceMessage msg =
     balanceMessage @ nl @ ''Transfer failed: '' @ msg @ ''. Please try again in a moment.''"

definition transfer_failed_plain_reply :: "string \<Rightarrow> string" where
  "transfer_failed_plain_reply balanceMessage =
     balanceMessage @ nl @ ''Transfer failed. Please try again in a moment.''"

definition invalid_input_reply :: string where
  "invalid_input_reply =
     ''Error: Invalid wallet address provided. Please provide a valid Solana wallet address.''"

definition error_checking_reply :: "string \<Rightarrow> string" where
  "error_checking_reply msg = ''Error checking balance: '' @ msg"

subsection \<open>\<open>_call\<close>\<close>

text \<open>Line 34 to 36: the empty string and \<open>'check'\<close> take the default wallet, any other
  input goes to the address constructor.\<close>

definition targetWallet_of :: "('w, 'n) BalanceMonitorTool \<Rightarrow> string \<Rightarrow> thrown + pubkey" where
  "targetWallet_of t input =
     (if input \<noteq> [] \<and> input \<noteq> ''check'' then PublicKey t input else Inr (defaultWallet t))"

text \<open>
  The inner \<open>try\<close> block (lines 46 to 73). It returns the reply, or the thrown value
  together with \<open>balanceMessage\<close> as it stands at the throw (line 58 extends it), the
  ledger after the calls made, and those calls.
\<close>

definition top_up ::
  "('w, 'n) BalanceMonitorTool \<Rightarrow> pubkey \<Rightarrow> string \<Rightarrow> 'w \<Rightarrow>
   ((thrown \<times> string) + string) \<times> 'w \<times> 'n event list"
where
  "top_up t targetWallet balanceMessage w =
     (let sourceWallet = wallet_publicKey t in
      case getBalance t sourceWallet w of
        (Inl e, w1) \<Rightarrow> (Inl (e, balanceMessage), w1, [GetBalance sourceWallet])
      | (Inr sourceBalance, w1) \<Rightarrow>
          let sourceBalanceInSol = inSol t sourceBalance;
              required = requiredAmount t
          in if number_less t sourceBalanceInSol required
             then (Inr (insufficient_funds_reply t balanceMessage required sourceWallet),
                   w1, [GetBalance sourceWallet])
             else
               let balanceMessage = my_wallet_balance_message t balanceMessage sourceBalanceInSol in
               (case transfer t targetWallet (topUpAmountSol t) w1 of
                 (Inl e, w2) \<Rightarrow>
                   (Inl (e, balanceMessage), w2,
                    [GetBalance sourceWallet, Transfer targetWallet (topUpAmountSol t)])
               | (Inr signature, w2) \<Rightarrow>
                   (case confirmTransaction t signature w2 of
                      (Inl e, w3) \<Rightarrow>
                        (Inl (e, balanceMessage), w3,
                         [GetBalance sourceWallet, Transfer targetWallet (topUpAmountSol t),
                          ConfirmTransaction signature])
                    | (Inr _, w3) \<Rightarrow>
                        (case getBalance t targetWallet w3 of
                           (Inl e, w4) \<Rightarrow>
                             (Inl (e, balanceMessage), w4,
                              [GetBalance sourceWallet, Transfer targetWallet (topUpAmountSol t),
                               ConfirmTransaction signature, GetBalance targetWallet])
                         | (Inr newBalance, w4) \<Rightarrow>
                             let newBalanceInSol = inSol t newBalance
                             in (Inr (topped_up_reply t balanceMessage newBalanceInSol), w4,
                                 [GetBalance sourceWallet, Transfer targetWallet (topUpAmountSol t),
                                  ConfirmTransaction signature, GetBalance targetWallet])))))"

text \<open>The inner \<open>catch\<close> (lines 74 to 86): the reply is chosen by the text of the error.\<close>

definition transfer_error_reply ::
  "('w, 'n) BalanceMonitorTool \<Rightarrow> string \<Rightarrow> thrown \<Rightarrow> string"
where
  "transfer_error_reply t balanceMessage error =
     (case error of
        Error msg \<Rightarrow>
          let errorMsg = toLowerCase msg
          in if str_includes errorMsg ''insufficient lamports'' \<or> str_includes errorMsg ''0x1''
             then fee_shortfall_reply balanceMessage (numberToString t (requiredAmount t))
             else if str_includes errorMsg ''attempt to debit''
             then funds_not_arrived_reply balanceMessage
             else transfer_failed_reply balanceMessage msg
      | NonError _ \<Rightarrow> transfer_failed_plain_reply balanceMessage)"

text \<open>The outer \<open>try\<close> block (lines 32 to 89), which may throw.\<close>

definition call_body ::
  "('w, 'n) BalanceMonitorTool \<Rightarrow> string \<Rightarrow> 'w \<Rightarrow> (thrown + string) \<times> 'w \<times> 'n event list"
where
  "call_body t input w =
     (case targetWallet_of t input of
        Inl e \<Rightarrow> (Inl e, w, [])
      | Inr targetWallet \<Rightarrow>
          (case getBalance t targetWallet w of
             (Inl e, w1) \<Rightarrow> (Inl e, w1, [GetBalance targetWallet])
           | (Inr balance, w1) \<Rightarrow>
               let balanceInSol = inSol t balance;
                   balanceMessage = current_balance_message t balanceInSol
               in if number_less t balanceInSol (minBalanceSol t)
                  then (case top_up t targetWallet balanceMessage w1 of
                          (Inr reply, w2, calls) \<Rightarrow> (Inr reply, w2, GetBalance targetWallet # calls)
                        | (Inl (e, balanceMessage), w2, calls) \<Rightarrow>
                            (Inr (transfer_error_reply t balanceMessage e), w2,
                             GetBalance targetWallet # calls))
                  else (Inr balanceMessage, w1, [GetBalance targetWallet])))"

text \<open>The outer \<open>catch\<close> (lines 90 to 95).\<close>

definition call_catch :: "thrown \<Rightarrow> string" where
  "call_catch error =
     (case error of
        Error msg \<Rightarrow>
          if str_includes msg ''Invalid public key'' then invalid_input_reply
          else error_checking_reply msg
      | NonError s \<Rightarrow> error_checking_reply s)"

text \<open>\<open>_call(input)\<close>: the reply or the value thrown to the caller, the ledger afterwards,
  and the ledger calls issued.\<close>

definition call ::
  "('w, 'n) BalanceMonitorTool \<Rightarrow> string \<Rightarrow> 'w \<Rightarrow> (thrown + string) \<times> 'w \<times> 'n event list"
where
  "call t input w =
     (case call_body t input w of
        (Inr reply, w', calls) \<Rightarrow> (Inr reply, w', calls)
      | (Inl e, w', calls) \<Rightarrow> (Inr (call_catch e), w', calls))"

subsection \<open>The outcomes\<close>

text \<open>
  The replies of \<open>_call\<close> by kind, with the numbers they print: the balance of the target,
  the balance of the funding account where line 48 has read it, the new balance. A
  failed transfer keeps the message of the error, or none for a thrown value that is no
  \<open>Error\<close>. \<open>CheckFailed\<close> is the reply of line 94, for whatever else was thrown.
\<close>

datatype 'n outcome =
    Healthy 'n
  | ToppedUp 'n 'n 'n
  | InsufficientFunds 'n
  | FeeShortfall 'n "'n option"
  | FundsNotArrived 'n "'n option"
  | TransferFailed 'n "'n option" "string option"
  | InvalidInput
  | CheckFailed string

fun balance_lines :: "('w, 'n) BalanceMonitorTool \<Rightarrow> 'n \<Rightarrow> 'n option \<Rightarrow> string" where
  "balance_lines t balanceInSol None = current_balance_message t balanceInSol"
| "balance_lines t balanceInSol (Some sourceBalanceInSol) =
     my_wallet_balance_message t (current_balance_message t balanceInSol) sourceBalanceInSol"

fun describe :: "('w, 'n) BalanceMonitorTool \<Rightarrow> 'n outcome \<Rightarrow> string" where
  "describe t (Healthy b) = current_balance_message t b"
| "describe t (ToppedUp b s n) = topped_up_reply t (balance_lines t b (Some s)) n"
| "describe t (InsufficientFunds b) =
     insufficient_funds_reply t (current_balance_message t b) (requiredAmount t)
       (wallet_publicKey t)"
| "describe t (FeeShortfall b s) =
     fee_shortfall_reply (balance_lines t b s) (numberToString t (requiredAmount t))"
| "describe t (FundsNotArrived b s) = funds_not_arrived_reply (balance_lines t b s)"
| "describe t (TransferFailed b s (Some msg)) = transfer_failed_reply (balance_lines t b s) msg"
| "describe t (TransferFailed b s None) = transfer_failed_plain_reply (balance_lines t b s)"
| "describe t InvalidInput = invalid_input_reply"
| "describe t (CheckFailed msg) = error_checking_reply msg"

subsection \<open>The earlier \<open>_call\<close> (\<open>src/unnamed/part_000\<close>)\<close>

definition topped_up_reply_000 ::
  "('w, 'n) BalanceMonitorTool \<Rightarrow> pubkey \<Rightarrow> 'n \<Rightarrow> string"
where
  "topped_up_reply_000 t targetWallet balanceInSol =
     ''Wallet '' @ targetWallet @ '' balance was low ('' @ toFixed t 4 balanceInSol @
     '' SOL). Successfully topped up with '' @ numberToString t (topUpAmountSol t) @ '' SOL.''"

definition top_up_failed_reply_000 :: "pubkey \<Rightarrow> string \<Rightarrow> string" where
  "top_up_failed_reply_000 targetWallet msg =
     ''Failed to top up wallet '' @ targetWallet @ ''. Error: '' @ msg"

definition healthy_reply_000 :: "('w, 'n) BalanceMonitorTool \<Rightarrow> pubkey \<Rightarrow> 'n \<Rightarrow> string" where
  "healthy_reply_000 t targetWallet balanceInSol =
     ''Wallet '' @ targetWallet @ '' balance is '' @ toFixed t 4 balanceInSol @
     '' SOL. No top-up needed.''"

definition thrown_text :: "thrown \<Rightarrow> string" where
  "thrown_text error = (case error of Error msg \<Rightarrow> msg | NonError s \<Rightarrow> s)"

definition call_body_000 ::
  "('w, 'n) BalanceMonitorTool \<Rightarrow> string \<Rightarrow> 'w \<Rightarrow> (thrown + string) \<times> 'w \<times> 'n event list"
where
  "call_body_000 t input w =
     (case targetWallet_of t input of
        Inl e \<Rightarrow> (Inl e, w, [])
      | Inr targetWallet \<Rightarrow>
          (case getBalance t targetWallet w of
             (Inl e, w1) \<Rightarrow> (Inl e, w1, [GetBalance targetWallet])
           | (Inr balance, w1) \<Rightarrow>
               let balanceInSol = inSol t balance
               in if number_less t balanceInSol (minBalanceSol t)
                  then (case transfer t targetWallet (topUpAmountSol t) w1 of
                          (Inr _, w2) \<Rightarrow>
                            (Inr (topped_up_reply_000 t targetWallet balanceInSol),
                             w2, [GetBalance targetWallet, Transfer targetWallet (topUpAmountSol t)])
                        | (Inl e, w2) \<Rightarrow>
                            (Inr (top_up_failed_reply_000 targetWallet (thrown_text e)),
                             w2, [GetBalance targetWallet, Transfer targetWallet (topUpAmountSol t)]))
                  else (Inr (healthy_reply_000 t targetWallet balanceInSol), w1,
                        [GetBalance targetWallet])))"

definition call_000 ::
  "('w, 'n) BalanceMonitorTool \<Rightarrow> string \<Rightarrow> 'w \<Rightarrow> (thrown + string) \<times> 'w \<times> 'n event list"
where
  "call_000 t input w =
     (case call_body_000 t input w of
        (Inr reply, w', calls) \<Rightarrow> (Inr reply, w', calls)
      | (Inl e, w', calls) \<Rightarrow> (Inr (call_catch e), w', calls))"

section \<open>The drivers of \<open>src/index.ts\<close>\<close>

text \<open>
  A tool as the drivers see it: its \<open>name\<close> and its \<open>_call\<close>. The agent is the language
  model behind \<open>agent.stream\<close>: it yields chunks and may throw, before the first chunk or
  after some of them. \<open>Log\<close> records the values the drivers print that come from a tool
  or from the agent; the fixed banner lines are not recorded.
\<close>

record ('w, 'n) Tool =
  name :: string
  tool_call :: "string \<Rightarrow> 'w \<Rightarrow> (thrown + string) \<times> 'w \<times> 'n event list"

datatype chunk = AgentChunk string | ToolsChunk string | OtherChunk

record 'w Agent =
  stream :: "string \<Rightarrow> 'w \<Rightarrow> (chunk list \<times> thrown option) \<times> 'w"

definition balanceMonitor_of :: "('w, 'n) BalanceMonitorTool \<Rightarrow> ('w, 'n) Tool" where
  "balanceMonitor_of t = \<lparr> name = ''balance_monitor'', tool_call = call t \<rparr>"

fun print_chunk :: "chunk \<Rightarrow> 'n event list" where
  "print_chunk (AgentChunk content) = [Log content]"
| "print_chunk (ToolsChunk content) = [Log content]"
| "print_chunk OtherChunk = []"

definition thought :: string where
  "thought =
     ''Choose and execute ONE of these monitoring tools:'' @ nl @
     ''- Network Status Check (network_info)'' @ nl @
     ''- Market Analysis (check_token_price)'' @ nl @
     ''- Performance Metrics (check_tps)''"

subsection \<open>\<open>runAutonomousMode\<close>\<close>

text \<open>The \<open>try\<close> block of one pass of the loop (lines 162 to 204), with the wait of
  \<open>interval * 1000\<close> milliseconds at its end. The interval is in whole seconds.\<close>

definition cycle ::
  "'w Agent \<Rightarrow> ('w, 'n) Tool list \<Rightarrow> nat \<Rightarrow> 'w \<Rightarrow> (thrown + unit) \<times> 'w \<times> 'n event list"
where
  "cycle agent tools interval w =
     (case (case find (\<lambda>tool. name tool = ''balance_monitor'') tools of
              None \<Rightarrow> (Inr (), w, [])
            | Some balanceMonitor \<Rightarrow>
                (case tool_call balanceMonitor ''check'' w of
                   (Inl e, w1, evs) \<Rightarrow> (Inl e, w1, evs)
                 | (Inr balance, w1, evs) \<Rightarrow> (Inr (), w1, evs @ [Log balance]))) of
        (Inl e, w1, evs) \<Rightarrow> (Inl e, w1, evs)
      | (Inr _, w1, evs) \<Rightarrow>
          (case stream agent thought w1 of
             ((chunks, Some e), w2) \<Rightarrow> (Inl e, w2, evs @ concat (map print_chunk chunks))
           | ((chunks, None), w2) \<Rightarrow>
               (Inr (), w2, evs @ concat (map print_chunk chunks) @ [Sleep (interval * 1000)])))"

text \<open>One pass of \<open>while (true)\<close>: the \<open>try\<close> block, and in the \<open>catch\<close> the wait of 5000
  milliseconds before \<open>continue\<close>. The state is the ledger and everything done so far.\<close>

definition iteration ::
  "'w Agent \<Rightarrow> ('w, 'n) Tool list \<Rightarrow> nat \<Rightarrow> 'w \<times> 'n event list \<Rightarrow> 'w \<times> 'n event list"
where
  "iteration agent tools interval s =
     (case cycle agent tools interval (fst s) of
        (Inr _, w', evs) \<Rightarrow> (w', snd s @ evs)
      | (Inl e, w', evs) \<Rightarrow> (w', snd s @ evs @ [Sleep 5000]))"

text \<open>The loop itself. Its value is what it returns, \<open>None\<close> when it never does.\<close>

partial_function (option) runAutonomousMode ::
  "'w Agent \<Rightarrow> ('w, 'n) Tool list \<Rightarrow> nat \<Rightarrow> 'w \<times> 'n event list \<Rightarrow> unit option"
where
  "runAutonomousMode agent tools interval s =
     runAutonomousMode agent tools interval (iteration agent tools interval s)"


text \<open>\<open>main\<close> starts the loop without an interval, so with the default of 10 seconds.\<close>

definition default_interval :: nat where
  "default_interval = 10"

definition main_auto :: "'w Agent \<Rightarrow> ('w, 'n) Tool list \<Rightarrow> 'w \<Rightarrow> unit option" where
  "main_auto agent tools w = runAutonomousMode agent tools default_interval (w, [])"

subsection \<open>\<open>runChatMode\<close>\<close>

text \<open>What one prompt leads to: the next prompt, the end of the chat, or
  \<open>process.exit(1)\<close> from the outer \<open>catch\<close>.\<close>

datatype turn = Continue | Break | Exit nat

text \<open>Lines 238 to 245. \<open>None\<close>: no tool of that name, the prompt falls through.\<close>

definition chat_balance ::
  "('w, 'n) Tool list \<Rightarrow> 'w \<Rightarrow> (turn \<times> 'w \<times> 'n event list) option"
where
  "chat_balance tools w =
     (case find (\<lambda>tool. name tool = ''balance_monitor'') tools of
        None \<Rightarrow> None
      | Some balanceMonitor \<Rightarrow>
          (case tool_call balanceMonitor ''check'' w of
             (Inl e, w1, evs) \<Rightarrow> Some (Exit 1, w1, evs)
           | (Inr balance, w1, evs) \<Rightarrow> Some (Continue, w1, evs @ [Log balance])))"

text \<open>Lines 248 to 271. \<open>numberText\<close> is the text the runtime gives the literal \<open>0.001\<close> in
  the template string. The value thrown by either call is printed by the inner \<open>catch\<close>.\<close>

definition transfer_request :: "(rat \<Rightarrow> string) \<Rightarrow> string" where
  "transfer_request numberText = (let transferAmount = 1 / 1000 in ''transfer '' @ numberText transferAmount)"

definition chat_transfer ::
  "(rat \<Rightarrow> string) \<Rightarrow> ('w, 'n) Tool list \<Rightarrow> 'w \<Rightarrow> (turn \<times> 'w \<times> 'n event list) option"
where
  "chat_transfer numberText tools w =
     (case find (\<lambda>tool. name tool = ''balance_monitor'') tools of
        None \<Rightarrow> None
      | Some balanceMonitor \<Rightarrow>
          (case tool_call balanceMonitor ''check'' w of
             (Inl e, w1, evs) \<Rightarrow> Some (Continue, w1, evs @ [Log (thrown_text e)])
           | (Inr result, w1, evs) \<Rightarrow>
               if \<not> str_includes result ''Agent wallet balance: 0.0000 SOL''
               then (case tool_call balanceMonitor (transfer_request numberText) w1 of
                       (Inl e, w2, evs2) \<Rightarrow>
                         Some (Continue, w2, evs @ [Log result] @ evs2 @ [Log (thrown_text e)])
                     | (Inr transferResult, w2, evs2) \<Rightarrow>
                         Some (Continue, w2, evs @ [Log result] @ evs2 @ [Log transferResult]))
               else Some (Continue, w1, evs @ [Log result])))"

text \<open>Lines 273 to 285.\<close>

definition chat_agent :: "'w Agent \<Rightarrow> string \<Rightarrow> 'w \<Rightarrow> turn \<times> 'w \<times> 'n event list" where
  "chat_agent agent userInput w =
     (case stream agent userInput w of
        ((chunks, Some e), w1) \<Rightarrow> (Exit 1, w1, concat (map print_chunk chunks))
      | ((chunks, None), w1) \<Rightarrow> (Continue, w1, concat (map print_chunk chunks)))"

text \<open>One prompt of the chat (lines 231 to 285).\<close>

definition chat_turn ::
  "(rat \<Rightarrow> string) \<Rightarrow> 'w Agent \<Rightarrow> ('w, 'n) Tool list \<Rightarrow> string \<Rightarrow> 'w \<Rightarrow>
   turn \<times> 'w \<times> 'n event list"
where
  "chat_turn numberText agent tools userInput w =
     (if toLowerCase userInput = ''exit'' then (Break, w, [])
      else
        case (if str_includes (toLowerCase userInput) ''balance'' then chat_balance tools w else None) of
          Some r \<Rightarrow> r
        | None \<Rightarrow>
            (case (if str_includes (toLowerCase userInput) ''transfer''
                   then chat_transfer numberText tools w else None) of
               Some r \<Rightarrow> r
             | None \<Rightarrow> chat_agent agent userInput w))"

text \<open>The submissions among the events.\<close>

fun is_submission :: "'n event \<Rightarrow> bool" where
  "is_submission (Transfer k amount) = True"
| "is_submission ev = False"

definition submissions :: "'n event list \<Rightarrow> 'n event list" where
  "submissions evs = filter is_submission evs"

section \<open>A ledger and an arithmetic to run the program on\<close>

subsection \<open>Exact arithmetic\<close>

text \<open>
  For the examples the numbers are the rationals with their exact operations. This is
  not the arithmetic of doubles; it gives the same comparisons and the same printed
  digits at the values the examples use (0.05, 0.1, 0.15, 0.25, 0.35, 0.5, 0.299995 and
  0.2 + 0.000005).
\<close>

definition digit_char :: "nat \<Rightarrow> char" where
  "digit_char d = ''0123456789'' ! d"

fun decimal :: "nat \<Rightarrow> string" where
  "decimal n = (if n < 10 then [digit_char n] else decimal (n div 10) @ [digit_char (n mod 10)])"

declare decimal.simps [simp del]

text \<open>
  \<open>Number.prototype.toFixed(f)\<close> on an exact value below \<open>10^21\<close>: the integer \<open>n\<close> with
  \<open>n / 10^f\<close> nearest to \<open>x\<close> (the larger one on a tie), its digits padded with zeros to
  \<open>f + 1\<close> places, the point before the last \<open>f\<close> digits, and a minus sign for a negative
  \<open>x\<close>.
\<close>

definition exact_toFixed :: "nat \<Rightarrow> rat \<Rightarrow> string" where
  "exact_toFixed f x =
     (let n = nat \<lfloor>\<bar>x\<bar> * 10 ^ f + 1 / 2\<rfloor>;
          m = decimal n;
          m = replicate (f + 1 - length m) (CHR ''0'') @ m;
          k = length m
      in (if x < 0 then ''-'' else []) @
         (if f = 0 then m else take (k - f) m @ ''.'' @ drop (k - f) m))"

text \<open>The text of the numbers the examples put into a template string.\<close>

definition example_numberToString :: "rat \<Rightarrow> string" where
  "example_numberToString x =
     (if x = 1 / 1000 then ''0.001''
      else if x = 1 / 5 then ''0.2''
      else if x = 40001 / 200000 then ''0.20000500000000002''
      else exact_toFixed 6 x)"

subsection \<open>The ledger\<close>

text \<open>
  Balances in lamports by account (the first entry of an account counts), and the number
  of requests of the agent that will still fail. A transfer moves the amount and charges
  the sender a fee of 5000 lamports.
\<close>

record world =
  balances :: "(pubkey \<times> nat) list"
  outages :: nat

definition balance_of :: "world \<Rightarrow> pubkey \<Rightarrow> nat" where
  "balance_of w k = (case map_of (balances w) k of None \<Rightarrow> 0 | Some b \<Rightarrow> b)"

definition ledger_getBalance :: "pubkey \<Rightarrow> world \<Rightarrow> (thrown + nat) \<times> world" where
  "ledger_getBalance k w = (Inr (balance_of w k), w)"

definition ledger_transfer ::
  "pubkey \<Rightarrow> pubkey \<Rightarrow> rat \<Rightarrow> world \<Rightarrow> (thrown + signature) \<times> world"
where
  "ledger_transfer sender receiver amount w =
     (let lamports = nat \<lfloor>amount * of_nat LAMPORTS_PER_SOL\<rfloor>
      in if balance_of w sender < lamports + 5000
         then (Inl (Error ''Transfer: insufficient lamports''), w)
         else (Inr ''signature1'',
               w\<lparr>balances :=
                    (receiver, balance_of w receiver + lamports) #
                    (sender, balance_of w sender - (lamports + 5000)) # balances w\<rparr>))"

definition ledger_confirm :: "signature \<Rightarrow> world \<Rightarrow> (thrown + unit) \<times> world" where
  "ledger_confirm sig w = (Inr (), w)"

definition monitored :: pubkey where
  "monitored = ''Monitored1111111111111111111111111111111111''"

definition funding :: pubkey where
  "funding = ''Funding111111111111111111111111111111111111''"

definition base58 :: string where
  "base58 = ''123456789ABCDEFGHJKLMNPQRSTUVWXYZabcdefghijkmnopqrstuvwxyz''"

text \<open>
  An address constructor over a base-58 decoder: a character outside the alphabet is
  refused by the decoder with its own message, a text of the wrong size by the
  constructor (the size is taken from the length of the text here).
\<close>

definition base58_PublicKey :: "string \<Rightarrow> thrown + pubkey" where
  "base58_PublicKey s =
     (if \<not> list_all (\<lambda>c. c \<in> set base58) s then Inl (Error ''Non-base58 character'')
      else if length s < 32 \<or> 44 < length s then Inl (Error ''Invalid public key input'')
      else Inr s)"

text \<open>The tool of the spec's scenarios: threshold 0.1, top-up 0.2.\<close>

definition example_tool :: "(world, rat) BalanceMonitorTool" where
  "example_tool = \<lparr>
     getBalance = ledger_getBalance,
     confirmTransaction = ledger_confirm,
     wallet_publicKey = funding,
     transfer = ledger_transfer funding,
     PublicKey = base58_PublicKey,
     number_divide = (\<lambda>a b. of_nat a / of_nat b),
     number_add = (\<lambda>x y. x + y),
     number_less = (\<lambda>x y. x < y),
     number_literal = (\<lambda>x. x),
     toFixed = exact_toFixed,
     numberToString = example_numberToString,
     minBalanceSol = 1 / 10,
     topUpAmountSol = 1 / 5,
     defaultWallet = monitored \<rparr>"

text \<open>The same tool on a ledger whose confirmation times out, on one that refuses the
  submission, and on one whose confirmation reports the transaction as expired.\<close>

definition confirm_timeout_tool :: "(world, rat) BalanceMonitorTool" where
  "confirm_timeout_tool =
     example_tool\<lparr>confirmTransaction := (\<lambda>sig w. (Inl (Error ''timeout''), w))\<rparr>"

definition submit_timeout_tool :: "(world, rat) BalanceMonitorTool" where
  "submit_timeout_tool =
     example_tool\<lparr>transfer := (\<lambda>k amount w. (Inl (Error ''timeout''), w))\<rparr>"

definition confirm_expired_tool :: "(world, rat) BalanceMonitorTool" where
  "confirm_expired_tool =
     example_tool\<lparr>confirmTransaction :=
       (\<lambda>sig w. (Inl (Error ''Signature has expired: block height exceeded.''), w))\<rparr>"

text \<open>The same tool on a ledger where a deposit of 0.1 SOL from elsewhere reaches the
  monitored account while the confirmation is awaited.\<close>

definition late_deposit_tool :: "(world, rat) BalanceMonitorTool" where
  "late_deposit_tool =
     example_tool\<lparr>confirmTransaction :=
       (\<lambda>sig w. (Inr (),
          w\<lparr>balances := (monitored, balance_of w monitored + 100000000) # balances w\<rparr>))\<rparr>"

definition bank :: "nat \<Rightarrow> nat \<Rightarrow> world" where
  "bank target_lamports funding_lamports =
     \<lparr>balances = [(monitored, target_lamports), (funding, funding_lamports)], outages = 0\<rparr>"

text \<open>An agent whose request fails while outages are left, and answers otherwise.\<close>

definition example_agent :: "world Agent" where
  "example_agent = \<lparr>
     stream = (\<lambda>prompt w.
       if 0 < outages w then (([], Some (Error ''fetch failed'')), w\<lparr>outages := outages w - 1\<rparr>)
       else (([AgentChunk ''Current Solana network TPS: 2500''], None), w)) \<rparr>"

text \<open>The ledger after a top-up of 0.2 SOL of an account at 0.05 SOL from a funding
  account at 0.5 SOL.\<close>

definition paid :: world where
  "paid = \<lparr>balances = [(monitored, 250000000), (funding, 299995000),
                        (monitored, 50000000), (funding, 500000000)], outages = 0\<rparr>"


section \<open>Paths of \<open>_call\<close>\<close>

lemma startsWith_append: "startsWith (s @ b) s"
  by (induction s) auto

lemma str_includes_prefix: "str_includes (s @ b) s"
proof (cases "s @ b")
  case Nil
  then show ?thesis by simp
next
  case (Cons c cs)
  have "startsWith (s @ b) s" by (rule startsWith_append)
  with Cons show ?thesis by simp
qed

lemma str_includes_append: "str_includes (a @ s @ b) s"
  by (induction a) (auto simp: str_includes_prefix)

lemma call_parse_error:
  assumes "input \<noteq> []" and "input \<noteq> ''check''" and "PublicKey t input = Inl e"
  shows "call t input w = (Inr (call_catch e), w, [])"
  using assms by (simp add: call_def call_body_def targetWallet_of_def)

lemma call_healthy:
  assumes "targetWallet_of t input = Inr targetWallet"
    and "getBalance t targetWallet w = (Inr balance, w1)"
    and "\<not> number_less t (inSol t balance) (minBalanceSol t)"
  shows "call t input w =
           (Inr (current_balance_message t (inSol t balance)), w1, [GetBalance targetWallet])"
  using assms by (simp add: call_def call_body_def)

lemma call_000_healthy:
  assumes "targetWallet_of t input = Inr targetWallet"
    and "getBalance t targetWallet w = (Inr balance, w1)"
    and "\<not> number_less t (inSol t balance) (minBalanceSol t)"
  shows "call_000 t input w =
           (Inr (healthy_reply_000 t targetWallet (inSol t balance)), w1,
            [GetBalance targetWallet])"
  using assms by (simp add: call_000_def call_body_000_def)

lemma call_low:
  assumes "targetWallet_of t input = Inr targetWallet"
    and "getBalance t targetWallet w = (Inr balance, w1)"
    and "number_less t (inSol t balance) (minBalanceSol t)"
  shows "call t input w =
           (case top_up t targetWallet (current_balance_message t (inSol t balance)) w1 of
              (Inr reply, w2, calls) \<Rightarrow> (Inr reply, w2, GetBalance targetWallet # calls)
            | (Inl (e, balanceMessage), w2, calls) \<Rightarrow>
                (Inr (transfer_error_reply t balanceMessage e), w2, GetBalance targetWallet # calls))"
  using assms by (simp add: call_def call_body_def split: prod.splits sum.splits)

lemma top_up_short:
  assumes "getBalance t (wallet_publicKey t) w1 = (Inr sourceBalance, w2)"
    and "number_less t (inSol t sourceBalance) (requiredAmount t)"
  shows "top_up t targetWallet balanceMessage w1 =
           (Inr (insufficient_funds_reply t balanceMessage (requiredAmount t) (wallet_publicKey t)),
            w2, [GetBalance (wallet_publicKey t)])"
  using assms by (simp add: top_up_def Let_def)

lemma top_up_submit_error:
  assumes "getBalance t (wallet_publicKey t) w1 = (Inr sourceBalance, w2)"
    and "\<not> number_less t (inSol t sourceBalance) (requiredAmount t)"
    and "transfer t targetWallet (topUpAmountSol t) w2 = (Inl e, w3)"
  shows "top_up t targetWallet balanceMessage w1 =
           (Inl (e, my_wallet_balance_message t balanceMessage (inSol t sourceBalance)),
            w3, [GetBalance (wallet_publicKey t), Transfer targetWallet (topUpAmountSol t)])"
  using assms by (simp add: top_up_def Let_def)

lemma top_up_confirm_error:
  assumes "getBalance t (wallet_publicKey t) w1 = (Inr sourceBalance, w2)"
    and "\<not> number_less t (inSol t sourceBalance) (requiredAmount t)"
    and "transfer t targetWallet (topUpAmountSol t) w2 = (Inr signature, w3)"
    and "confirmTransaction t signature w3 = (Inl e, w4)"
  shows "top_up t targetWallet balanceMessage w1 =
           (Inl (e, my_wallet_balance_message t balanceMessage (inSol t sourceBalance)),
            w4, [GetBalance (wallet_publicKey t), Transfer targetWallet (topUpAmountSol t),
                 ConfirmTransaction signature])"
  using assms by (simp add: top_up_def Let_def)

lemma top_up_confirmed:
  assumes "getBalance t (wallet_publicKey t) w1 = (Inr sourceBalance, w2)"
    and "\<not> number_less t (inSol t sourceBalance) (requiredAmount t)"
    and "transfer t targetWallet (topUpAmountSol t) w2 = (Inr signature, w3)"
    and "confirmTransaction t signature w3 = (Inr u, w4)"
    and "getBalance t targetWallet w4 = (Inr newBalance, w5)"
  shows "top_up t targetWallet balanceMessage w1 =
           (Inr (topped_up_reply t
                   (my_wallet_balance_message t balanceMessage (inSol t sourceBalance))
                   (inSol t newBalance)),
            w5, [GetBalance (wallet_publicKey t), Transfer targetWallet (topUpAmountSol t),
                 ConfirmTransaction signature, GetBalance targetWallet])"
  using assms by (simp add: top_up_def Let_def)

lemma call_returns: "\<exists>reply w' calls. call t input w = (Inr reply, w', calls)"
  by (simp add: call_def split: prod.splits sum.splits)

subsection \<open>Every reply is the text of an outcome\<close>

lemma transfer_error_reply_outcome:
  "\<exists>outcome. transfer_error_reply t (balance_lines t b s) e = describe t outcome"
proof (cases e)
  case (Error msg)
  show ?thesis
  proof (cases "str_includes (toLowerCase msg) ''insufficient lamports'' \<or>
      str_includes (toLowerCase msg) ''0x1''")
    case True
    with Error have "transfer_error_reply t (balance_lines t b s) e = describe t (FeeShortfall b s)"
      by (simp add: transfer_error_reply_def)
    then show ?thesis ..
  next
    case False
    show ?thesis
    proof (cases "str_includes (toLowerCase msg) ''attempt to debit''")
      case True
      with False Error
      have "transfer_error_reply t (balance_lines t b s) e = describe t (FundsNotArrived b s)"
        by (simp add: transfer_error_reply_def)
      then show ?thesis ..
    next
      case no_debit: False
      with False Error
      have "transfer_error_reply t (balance_lines t b s) e =
          describe t (TransferFailed b s (Some msg))"
        by (simp add: transfer_error_reply_def)
      then show ?thesis ..
    qed
  qed
next
  case (NonError v)
  then have "transfer_error_reply t (balance_lines t b s) e = describe t (TransferFailed b s None)"
    by (simp add: transfer_error_reply_def)
  then show ?thesis ..
qed

lemma call_catch_outcome: "\<exists>outcome. call_catch e = describe t outcome"
proof (cases e)
  case (Error msg)
  show ?thesis
  proof (cases "str_includes msg ''Invalid public key''")
    case True
    with Error have "call_catch e = describe t InvalidInput"
      by (simp add: call_catch_def)
    then show ?thesis ..
  next
    case False
    with Error have "call_catch e = describe t (CheckFailed msg)"
      by (simp add: call_catch_def)
    then show ?thesis ..
  qed
next
  case (NonError v)
  then have "call_catch e = describe t (CheckFailed v)"
    by (simp add: call_catch_def)
  then show ?thesis ..
qed

lemma top_up_outcome:
  "(\<exists>reply w2 calls outcome.
      top_up t k (current_balance_message t b) w1 = (Inr reply, w2, calls) \<and>
      reply = describe t outcome) \<or>
   (\<exists>e s w2 calls.
      top_up t k (current_balance_message t b) w1 = (Inl (e, balance_lines t b s), w2, calls))"
proof (cases "getBalance t (wallet_publicKey t) w1")
  case (Pair r w2)
  show ?thesis
  proof (cases r)
    case (Inl e)
    with Pair have "top_up t k (current_balance_message t b) w1 =
        (Inl (e, balance_lines t b None), w2, [GetBalance (wallet_publicKey t)])"
      by (simp add: top_up_def)
    then show ?thesis by blast
  next
    case (Inr sourceBalance)
    show ?thesis
    proof (cases "number_less t (inSol t sourceBalance) (requiredAmount t)")
      case True
      with Pair Inr have "top_up t k (current_balance_message t b) w1 =
          (Inr (describe t (InsufficientFunds b)), w2, [GetBalance (wallet_publicKey t)])"
        by (simp add: top_up_short)
      then show ?thesis by blast
    next
      case False
      note source = Pair [unfolded Inr]
      show ?thesis
      proof (cases "transfer t k (topUpAmountSol t) w2")
        case submitted: (Pair r3 w3)
        show ?thesis
        proof (cases r3)
          case (Inl e)
          have "top_up t k (current_balance_message t b) w1 =
              (Inl (e, balance_lines t b (Some (inSol t sourceBalance))), w3,
               [GetBalance (wallet_publicKey t), Transfer k (topUpAmountSol t)])"
            using top_up_submit_error [OF source False submitted [unfolded Inl]] by simp
          then show ?thesis by blast
        next
          case signed: (Inr signature)
          show ?thesis
          proof (cases "confirmTransaction t signature w3")
            case confirmed: (Pair r4 w4)
            show ?thesis
            proof (cases r4)
              case (Inl e)
              have "top_up t k (current_balance_message t b) w1 =
                  (Inl (e, balance_lines t b (Some (inSol t sourceBalance))), w4,
                   [GetBalance (wallet_publicKey t), Transfer k (topUpAmountSol t),
                    ConfirmTransaction signature])"
                using top_up_confirm_error
                  [OF source False submitted [unfolded signed] confirmed [unfolded Inl]]
                by simp
              then show ?thesis by blast
            next
              case ok: (Inr u)
              show ?thesis
              proof (cases "getBalance t k w4")
                case requeried: (Pair r5 w5)
                show ?thesis
                proof (cases r5)
                  case (Inl e)
                  with source False submitted signed confirmed ok requeried
                  have "top_up t k (current_balance_message t b) w1 =
                      (Inl (e, balance_lines t b (Some (inSol t sourceBalance))), w5,
                       [GetBalance (wallet_publicKey t), Transfer k (topUpAmountSol t),
                        ConfirmTransaction signature, GetBalance k])"
                    by (simp add: top_up_def Let_def)
                  then show ?thesis by blast
                next
                  case (Inr newBalance)
                  have "top_up t k (current_balance_message t b) w1 =
                      (Inr (describe t
                              (ToppedUp b (inSol t sourceBalance) (inSol t newBalance))), w5,
                       [GetBalance (wallet_publicKey t), Transfer k (topUpAmountSol t),
                        ConfirmTransaction signature, GetBalance k])"
                    using top_up_confirmed
                      [OF source False submitted [unfolded signed] confirmed [unfolded ok]
                        requeried [unfolded Inr]]
                    by simp
                  then show ?thesis by blast
                qed
              qed
            qed
          qed
        qed
      qed
    qed
  qed
qed

lemma call_outcome:
  "\<exists>outcome w' calls. call t input w = (Inr (describe t outcome), w', calls)"
proof (cases "targetWallet_of t input")
  case (Inl e)
  then have "call t input w = (Inr (call_catch e), w, [])"
    by (simp add: call_def call_body_def)
  with call_catch_outcome [of e t] show ?thesis by auto
next
  case (Inr targetWallet)
  show ?thesis
  proof (cases "getBalance t targetWallet w")
    case (Pair r w1)
    show ?thesis
    proof (cases r)
      case (Inl e)
      with Inr Pair have "call t input w = (Inr (call_catch e), w1, [GetBalance targetWallet])"
        by (simp add: call_def call_body_def)
      with call_catch_outcome [of e t] show ?thesis by auto
    next
      case queried: (Inr balance)
      show ?thesis
      proof (cases "number_less t (inSol t balance) (minBalanceSol t)")
        case False
        have "call t input w = (Inr (describe t (Healthy (inSol t balance))), w1,
            [GetBalance targetWallet])"
          using call_healthy [OF Inr Pair [unfolded queried] False] by simp
        then show ?thesis by blast
      next
        case True
        note low = call_low [OF Inr Pair [unfolded queried] True]
        from top_up_outcome [of t targetWallet "inSol t balance" w1] show ?thesis
        proof
          assume "\<exists>reply w2 calls outcome.
            top_up t targetWallet (current_balance_message t (inSol t balance)) w1 =
              (Inr reply, w2, calls) \<and> reply = describe t outcome"
          then show ?thesis
            by (auto simp: low)
        next
          assume "\<exists>e s w2 calls.
            top_up t targetWallet (current_balance_message t (inSol t balance)) w1 =
              (Inl (e, balance_lines t (inSol t balance) s), w2, calls)"
          then obtain e s w2 calls where
            "top_up t targetWallet (current_balance_message t (inSol t balance)) w1 =
              (Inl (e, balance_lines t (inSol t balance) s), w2, calls)"
            by blast
          then have "call t input w =
              (Inr (transfer_error_reply t (balance_lines t (inSol t balance) s) e), w2,
               GetBalance targetWallet # calls)"
            by (simp add: low)
          with transfer_error_reply_outcome [of t "inSol t balance" s e] show ?thesis
            by auto
        qed
      qed
    qed
  qed
qed

subsection \<open>The loop\<close>

lemma runAutonomousMode_never_returns: "runAutonomousMode agent tools interval s = None"
proof (cases "runAutonomousMode agent tools interval s")
  case None
  then show ?thesis .
next
  case (Some u)
  then have False
    by (rule runAutonomousMode.raw_induct [rotated, where P = "\<lambda>agent tools interval s u. False"])
      blast
  then show ?thesis ..
qed


section \<open>The examples, evaluated\<close>

lemma example_tool_fields:
  "getBalance example_tool = ledger_getBalance"
  "confirmTransaction example_tool = ledger_confirm"
  "wallet_publicKey example_tool = funding"
  "transfer example_tool = ledger_transfer funding"
  "PublicKey example_tool = base58_PublicKey"
  "toFixed example_tool = exact_toFixed"
  "numberToString example_tool = example_numberToString"
  "minBalanceSol example_tool = 1 / 10"
  "topUpAmountSol example_tool = 1 / 5"
  "defaultWallet example_tool = monitored"
  by (simp_all add: example_tool_def)

lemma example_numbers:
  "number_less example_tool x y = (x < y)"
  "requiredAmount example_tool = 40001 / 200000"
  "inSol example_tool 150000000 = 3 / 20"
  "inSol example_tool 50000000 = 1 / 20"
  "inSol example_tool 100000000 = 1 / 10"
  "inSol example_tool 500000000 = 1 / 2"
  "inSol example_tool 350000000 = 7 / 20"
  "inSol example_tool 250000000 = 1 / 4"
  "inSol example_tool 299995000 = 59999 / 200000"
  by (simp_all add: example_tool_def inSol_def requiredAmount_def LAMPORTS_PER_SOL_def)

lemma variant_fields:
  "getBalance confirm_timeout_tool = ledger_getBalance"
  "getBalance submit_timeout_tool = ledger_getBalance"
  "getBalance confirm_expired_tool = ledger_getBalance"
  "getBalance late_deposit_tool = ledger_getBalance"
  "wallet_publicKey confirm_timeout_tool = funding"
  "wallet_publicKey submit_timeout_tool = funding"
  "wallet_publicKey confirm_expired_tool = funding"
  "wallet_publicKey late_deposit_tool = funding"
  "defaultWallet confirm_timeout_tool = monitored"
  "defaultWallet submit_timeout_tool = monitored"
  "defaultWallet confirm_expired_tool = monitored"
  "defaultWallet late_deposit_tool = monitored"
  "topUpAmountSol confirm_timeout_tool = 1 / 5"
  "topUpAmountSol submit_timeout_tool = 1 / 5"
  "topUpAmountSol confirm_expired_tool = 1 / 5"
  "topUpAmountSol late_deposit_tool = 1 / 5"
  "minBalanceSol confirm_timeout_tool = 1 / 10"
  "minBalanceSol submit_timeout_tool = 1 / 10"
  "minBalanceSol confirm_expired_tool = 1 / 10"
  "minBalanceSol late_deposit_tool = 1 / 10"
  "transfer confirm_timeout_tool = ledger_transfer funding"
  "transfer confirm_expired_tool = ledger_transfer funding"
  "transfer late_deposit_tool = ledger_transfer funding"
  "transfer submit_timeout_tool = (\<lambda>k amount w. (Inl (Error ''timeout''), w))"
  "confirmTransaction confirm_timeout_tool = (\<lambda>sig w. (Inl (Error ''timeout''), w))"
  "confirmTransaction confirm_expired_tool =
     (\<lambda>sig w. (Inl (Error ''Signature has expired: block height exceeded.''), w))"
  "confirmTransaction late_deposit_tool =
     (\<lambda>sig w. (Inr (),
        w\<lparr>balances := (monitored, balance_of w monitored + 100000000) # balances w\<rparr>))"
  by (simp_all add: confirm_timeout_tool_def submit_timeout_tool_def confirm_expired_tool_def
      late_deposit_tool_def example_tool_def)

lemma variant_numbers:
  "number_less confirm_timeout_tool = number_less example_tool"
  "number_less submit_timeout_tool = number_less example_tool"
  "number_less confirm_expired_tool = number_less example_tool"
  "number_less late_deposit_tool = number_less example_tool"
  "requiredAmount confirm_timeout_tool = requiredAmount example_tool"
  "requiredAmount submit_timeout_tool = requiredAmount example_tool"
  "requiredAmount confirm_expired_tool = requiredAmount example_tool"
  "requiredAmount late_deposit_tool = requiredAmount example_tool"
  "inSol confirm_timeout_tool = inSol example_tool"
  "inSol submit_timeout_tool = inSol example_tool"
  "inSol confirm_expired_tool = inSol example_tool"
  "inSol late_deposit_tool = inSol example_tool"
  "toFixed confirm_timeout_tool = exact_toFixed"
  "toFixed submit_timeout_tool = exact_toFixed"
  "toFixed confirm_expired_tool = exact_toFixed"
  "toFixed late_deposit_tool = exact_toFixed"
  by (simp_all add: confirm_timeout_tool_def submit_timeout_tool_def confirm_expired_tool_def
      late_deposit_tool_def example_tool_def inSol_def requiredAmount_def fun_eq_iff)

lemma funding_not_monitored: "funding \<noteq> monitored" "monitored \<noteq> funding"
  by (simp_all add: funding_def monitored_def)

lemma balance_of_bank:
  "balance_of (bank a b) monitored = a"
  "balance_of (bank a b) funding = b"
  by (simp_all add: balance_of_def bank_def funding_not_monitored)

lemma balance_of_paid:
  "balance_of paid monitored = 250000000"
  "balance_of paid funding = 299995000"
  by (simp_all add: balance_of_def paid_def funding_not_monitored)

lemma floor_rat_numeral: "\<lfloor>numeral a / numeral b :: rat\<rfloor> = numeral a div numeral b"
  using floor_divide_of_int_eq [where ?'a = rat, of "numeral a" "numeral b"] by simp

lemma decimal_values:
  "decimal 1500 = ''1500''"
  "decimal 500 = ''500''"
  "decimal 5000 = ''5000''"
  "decimal 2500 = ''2500''"
  "decimal 3500 = ''3500''"
  "decimal 3000 = ''3000''"
  "decimal 200005 = ''200005''"
  by (simp_all add: decimal.simps digit_char_def)

lemma exact_toFixed_values:
  "exact_toFixed 4 (3 / 20) = ''0.1500''"
  "exact_toFixed 4 (1 / 20) = ''0.0500''"
  "exact_toFixed 4 (1 / 2) = ''0.5000''"
  "exact_toFixed 4 (1 / 4) = ''0.2500''"
  "exact_toFixed 4 (7 / 20) = ''0.3500''"
  "exact_toFixed 4 (59999 / 200000) = ''0.3000''"
  "exact_toFixed 6 (40001 / 200000) = ''0.200005''"
  by (simp_all add: exact_toFixed_def Let_def floor_rat_numeral decimal_values)

text \<open>The texts of the examples. They depend on the tool through \<open>toFixed\<close> only, so they
  are the same for the example tool and its variants.\<close>

lemma example_texts:
  assumes "toFixed t = exact_toFixed"
  shows "current_balance_message t (3 / 20) = ''Current balance: 0.1500 SOL''"
    and "current_balance_message t (1 / 20) = ''Current balance: 0.0500 SOL''"
    and "my_wallet_balance_message t balanceMessage (1 / 2) =
          balanceMessage @ nl @ ''My wallet balance: 0.5000 SOL''"
    and "topped_up_reply t balanceMessage (1 / 4) =
          balanceMessage @ nl @ ''Transfer successful! '' @ check_mark @ nl @
          ''New balance: 0.2500 SOL''"
    and "topped_up_reply t balanceMessage (7 / 20) =
          balanceMessage @ nl @ ''Transfer successful! '' @ check_mark @ nl @
          ''New balance: 0.3500 SOL''"
    and "insufficient_funds_reply t ''Current balance: 0.0500 SOL'' (40001 / 200000) funding =
          ''Current balance: 0.0500 SOL'' @ nl @ nl @ ''I need some SOL to keep operating! '' @
          folded_hands @ nl @ ''Please send at least 0.200005 SOL to my address:'' @ nl @
          ''Funding111111111111111111111111111111111111'' @ nl @ nl @
          ''This amount includes transaction fees. Once you've sent the SOL, let me know by saying '' @
          dquote @ ''check balance'' @ dquote @
          '' and I'll verify the funds and proceed with the top-up.''"
  using assms
  by (simp_all add: current_balance_message_def my_wallet_balance_message_def topped_up_reply_def
      insufficient_funds_reply_def exact_toFixed_values funding_def)

lemma check_resolves:
  "targetWallet_of example_tool ''check'' = Inr monitored"
  "targetWallet_of confirm_timeout_tool ''check'' = Inr monitored"
  "targetWallet_of submit_timeout_tool ''check'' = Inr monitored"
  "targetWallet_of confirm_expired_tool ''check'' = Inr monitored"
  "targetWallet_of late_deposit_tool ''check'' = Inr monitored"
  by (simp_all add: targetWallet_of_def example_tool_fields variant_fields)

lemma bank_getBalance:
  "ledger_getBalance monitored (bank a b) = (Inr a, bank a b)"
  "ledger_getBalance funding (bank a b) = (Inr b, bank a b)"
  "ledger_getBalance monitored paid = (Inr 250000000, paid)"
  by (simp_all add: ledger_getBalance_def balance_of_bank balance_of_paid)

lemma ledger_transfer_paid:
  "ledger_transfer funding monitored (1 / 5) (bank 50000000 500000000) = (Inr ''signature1'', paid)"
proof -
  have "bank 50000000 500000000
          \<lparr>balances := (monitored, 250000000) # (funding, 299995000) #
             balances (bank 50000000 500000000)\<rparr> = paid"
    by (simp add: paid_def bank_def)
  then show ?thesis
    by (simp add: ledger_transfer_def balance_of_bank LAMPORTS_PER_SOL_def Let_def)
qed

lemma transfer_error_reply_plain:
  "transfer_error_reply t balanceMessage (Error ''timeout'') =
     transfer_failed_reply balanceMessage ''timeout''"
  "transfer_error_reply t balanceMessage
     (Error ''Signature has expired: block height exceeded.'') =
     transfer_failed_reply balanceMessage ''Signature has expired: block height exceeded.''"
  by (simp_all add: transfer_error_reply_def toLowerCase_def lower_char_def)

lemma example_low:
  "number_less example_tool (inSol example_tool 50000000) (minBalanceSol example_tool)"
  "number_less confirm_timeout_tool (inSol confirm_timeout_tool 50000000)
     (minBalanceSol confirm_timeout_tool)"
  "number_less submit_timeout_tool (inSol submit_timeout_tool 50000000)
     (minBalanceSol submit_timeout_tool)"
  "number_less confirm_expired_tool (inSol confirm_expired_tool 50000000)
     (minBalanceSol confirm_expired_tool)"
  "number_less late_deposit_tool (inSol late_deposit_tool 50000000)
     (minBalanceSol late_deposit_tool)"
  by (simp_all add: variant_numbers variant_fields example_numbers example_tool_fields)

lemma example_funded:
  "\<not> number_less example_tool (inSol example_tool 500000000) (requiredAmount example_tool)"
  "\<not> number_less confirm_timeout_tool (inSol confirm_timeout_tool 500000000)
     (requiredAmount confirm_timeout_tool)"
  "\<not> number_less submit_timeout_tool (inSol submit_timeout_tool 500000000)
     (requiredAmount submit_timeout_tool)"
  "\<not> number_less confirm_expired_tool (inSol confirm_expired_tool 500000000)
     (requiredAmount confirm_expired_tool)"
  "\<not> number_less late_deposit_tool (inSol late_deposit_tool 500000000)
     (requiredAmount late_deposit_tool)"
  by (simp_all add: variant_numbers example_numbers)

lemma example_getBalance:
  "getBalance example_tool monitored (bank a b) = (Inr a, bank a b)"
  "getBalance example_tool (wallet_publicKey example_tool) (bank a b) = (Inr b, bank a b)"
  "getBalance confirm_timeout_tool monitored (bank a b) = (Inr a, bank a b)"
  "getBalance confirm_timeout_tool (wallet_publicKey confirm_timeout_tool) (bank a b) =
     (Inr b, bank a b)"
  "getBalance submit_timeout_tool monitored (bank a b) = (Inr a, bank a b)"
  "getBalance submit_timeout_tool (wallet_publicKey submit_timeout_tool) (bank a b) =
     (Inr b, bank a b)"
  "getBalance confirm_expired_tool monitored (bank a b) = (Inr a, bank a b)"
  "getBalance confirm_expired_tool (wallet_publicKey confirm_expired_tool) (bank a b) =
     (Inr b, bank a b)"
  "getBalance late_deposit_tool monitored (bank a b) = (Inr a, bank a b)"
  "getBalance late_deposit_tool (wallet_publicKey late_deposit_tool) (bank a b) =
     (Inr b, bank a b)"
  by (simp_all add: example_tool_fields variant_fields bank_getBalance)

section \<open>Claims\<close>

text \<open>
  C3. When the balance of the target is not below \<open>minBalanceSol\<close>, the call returns the
  \<open>Healthy\<close> reply, the balance line alone, and the one balance query is all it did: the
  ledger is the one that query left and no transfer was submitted. Both versions of the
  tool behave so.
\<close>

theorem healthy_no_top_up:
  fixes t :: "('w, 'n) BalanceMonitorTool"
  assumes "targetWallet_of t input = Inr targetWallet"
    and "getBalance t targetWallet w = (Inr balance, w1)"
    and "\<not> number_less t (inSol t balance) (minBalanceSol t)"
  shows "call t input w =
           (Inr (describe t (Healthy (inSol t balance))), w1, [GetBalance targetWallet]) \<and>
         call_000 t input w =
           (Inr (healthy_reply_000 t targetWallet (inSol t balance)), w1,
            [GetBalance targetWallet]) \<and>
         submissions [GetBalance targetWallet :: 'n event] = []"
  using assms by (simp add: call_healthy call_000_healthy submissions_def)

theorem healthy_no_top_up_witness:
  "call example_tool ''check'' (bank 150000000 100000000) =
     (Inr ''Current balance: 0.1500 SOL'', bank 150000000 100000000, [GetBalance monitored]) \<and>
   call_000 example_tool ''check'' (bank 150000000 100000000) =
     (Inr (''Wallet '' @ monitored @ '' balance is 0.1500 SOL. No top-up needed.''),
      bank 150000000 100000000, [GetBalance monitored])"
proof -
  have enough: "\<not> number_less example_tool (inSol example_tool 150000000)
      (minBalanceSol example_tool)"
    by (simp add: example_numbers example_tool_fields)
  show ?thesis
    using healthy_no_top_up [OF check_resolves(1) example_getBalance(1) [of 150000000 100000000] enough]
    by (simp add: example_numbers example_texts [OF example_tool_fields(6)]
        healthy_reply_000_def example_tool_fields exact_toFixed_values)
qed

text \<open>
  C1. When the balance of the target is below \<open>minBalanceSol\<close> and the balance of the
  funding account is below \<open>topUpAmountSol + 0.000005\<close>, both as the runtime compares
  them, the call returns the \<open>InsufficientFunds\<close> reply after the two balance queries,
  and no transfer was submitted.
\<close>

theorem solvency_check_blocks_transfer:
  fixes t :: "('w, 'n) BalanceMonitorTool"
  assumes "targetWallet_of t input = Inr targetWallet"
    and "getBalance t targetWallet w = (Inr balance, w1)"
    and "number_less t (inSol t balance) (minBalanceSol t)"
    and "getBalance t (wallet_publicKey t) w1 = (Inr sourceBalance, w2)"
    and "number_less t (inSol t sourceBalance) (requiredAmount t)"
  shows "call t input w =
           (Inr (describe t (InsufficientFunds (inSol t balance))),
            w2, [GetBalance targetWallet, GetBalance (wallet_publicKey t)]) \<and>
         submissions [GetBalance targetWallet, GetBalance (wallet_publicKey t) :: 'n event] = []"
  by (simp add: call_low [OF assms(1-3)] top_up_short [OF assms(4,5)] submissions_def)

theorem solvency_check_blocks_transfer_witness:
  "call example_tool ''check'' (bank 50000000 100000000) =
     (Inr (insufficient_funds_reply example_tool ''Current balance: 0.0500 SOL''
             (40001 / 200000) funding),
      bank 50000000 100000000, [GetBalance monitored, GetBalance funding])"
proof -
  have short: "number_less example_tool (inSol example_tool 100000000)
      (requiredAmount example_tool)"
    by (simp add: example_numbers)
  show ?thesis
    using solvency_check_blocks_transfer
      [OF check_resolves(1) example_getBalance(1) [of 50000000 100000000] example_low(1)
        example_getBalance(2) [of 50000000 100000000] short]
    by (simp add: example_numbers example_texts [OF example_tool_fields(6)]
        example_tool_fields)
qed

text \<open>
  C2. The claim does not hold: there is no reply of its own for a failed confirmation.
  When the submission returned a signature and the confirmation throws, the thrown value
  goes to the same \<open>catch\<close> as a failed submission, and the reply is the one that
  \<open>catch\<close> builds from the error, the same for both.
\<close>

theorem confirmation_error_shares_transfer_error_reply:
  assumes "targetWallet_of t input = Inr targetWallet"
    and "getBalance t targetWallet w = (Inr balance, w1)"
    and "number_less t (inSol t balance) (minBalanceSol t)"
    and "getBalance t (wallet_publicKey t) w1 = (Inr sourceBalance, w2)"
    and "\<not> number_less t (inSol t sourceBalance) (requiredAmount t)"
  shows "(transfer t targetWallet (topUpAmountSol t) w2 = (Inr signature, w3) \<and>
          confirmTransaction t signature w3 = (Inl e, w4) \<longrightarrow>
          call t input w =
            (Inr (transfer_error_reply t
                    (balance_lines t (inSol t balance) (Some (inSol t sourceBalance))) e),
             w4, [GetBalance targetWallet, GetBalance (wallet_publicKey t),
                  Transfer targetWallet (topUpAmountSol t), ConfirmTransaction signature])) \<and>
         (transfer t targetWallet (topUpAmountSol t) w2 = (Inl e, w3) \<longrightarrow>
          call t input w =
            (Inr (transfer_error_reply t
                    (balance_lines t (inSol t balance) (Some (inSol t sourceBalance))) e),
             w3, [GetBalance targetWallet, GetBalance (wallet_publicKey t),
                  Transfer targetWallet (topUpAmountSol t)]))"
proof (intro conjI impI)
  assume "transfer t targetWallet (topUpAmountSol t) w2 = (Inr signature, w3) \<and>
          confirmTransaction t signature w3 = (Inl e, w4)"
  then show "call t input w =
            (Inr (transfer_error_reply t
                    (balance_lines t (inSol t balance) (Some (inSol t sourceBalance))) e),
             w4, [GetBalance targetWallet, GetBalance (wallet_publicKey t),
                  Transfer targetWallet (topUpAmountSol t), ConfirmTransaction signature])"
    by (simp add: call_low [OF assms(1-3)] top_up_confirm_error [OF assms(4,5)])
next
  assume "transfer t targetWallet (topUpAmountSol t) w2 = (Inl e, w3)"
  then show "call t input w =
            (Inr (transfer_error_reply t
                    (balance_lines t (inSol t balance) (Some (inSol t sourceBalance))) e),
             w3, [GetBalance targetWallet, GetBalance (wallet_publicKey t),
                  Transfer targetWallet (topUpAmountSol t)])"
    by (simp add: call_low [OF assms(1-3)] top_up_submit_error [OF assms(4,5)])
qed

lemma timeout_steps:
  "transfer confirm_timeout_tool monitored (topUpAmountSol confirm_timeout_tool)
     (bank 50000000 500000000) = (Inr ''signature1'', paid)"
  "confirmTransaction confirm_timeout_tool ''signature1'' paid = (Inl (Error ''timeout''), paid)"
  "transfer submit_timeout_tool monitored (topUpAmountSol submit_timeout_tool)
     (bank 50000000 500000000) = (Inl (Error ''timeout''), bank 50000000 500000000)"
  "transfer confirm_expired_tool monitored (topUpAmountSol confirm_expired_tool)
     (bank 50000000 500000000) = (Inr ''signature1'', paid)"
  "confirmTransaction confirm_expired_tool ''signature1'' paid =
     (Inl (Error ''Signature has expired: block height exceeded.''), paid)"
  by (simp_all add: variant_fields ledger_transfer_paid)

theorem confirmation_error_shares_transfer_error_reply_witness:
  "call confirm_timeout_tool ''check'' (bank 50000000 500000000) =
     (Inr (''Current balance: 0.0500 SOL'' @ nl @ ''My wallet balance: 0.5000 SOL'' @ nl @
           ''Transfer failed: timeout. Please try again in a moment.''),
      paid,
      [GetBalance monitored, GetBalance funding, Transfer monitored (1 / 5),
       ConfirmTransaction ''signature1'']) \<and>
   call submit_timeout_tool ''check'' (bank 50000000 500000000) =
     (Inr (''Current balance: 0.0500 SOL'' @ nl @ ''My wallet balance: 0.5000 SOL'' @ nl @
           ''Transfer failed: timeout. Please try again in a moment.''),
      bank 50000000 500000000,
      [GetBalance monitored, GetBalance funding, Transfer monitored (1 / 5)])"
proof -
  have confirm_fails:
    "transfer confirm_timeout_tool monitored (topUpAmountSol confirm_timeout_tool)
       (bank 50000000 500000000) = (Inr ''signature1'', paid) \<and>
     confirmTransaction confirm_timeout_tool ''signature1'' paid = (Inl (Error ''timeout''), paid)"
    by (simp add: timeout_steps)
  note a = confirmation_error_shares_transfer_error_reply
      [OF check_resolves(2) example_getBalance(3) [of 50000000 500000000] example_low(2)
        example_getBalance(4) [of 50000000 500000000] example_funded(2),
        THEN conjunct1, rule_format, OF confirm_fails]
  note b = confirmation_error_shares_transfer_error_reply
      [OF check_resolves(3) example_getBalance(5) [of 50000000 500000000] example_low(3)
        example_getBalance(6) [of 50000000 500000000] example_funded(3),
        THEN conjunct2, rule_format, OF timeout_steps(3)]
  show ?thesis
    using a b
    by (simp add: variant_numbers example_numbers variant_fields
        example_texts [OF variant_numbers(13)] example_texts [OF variant_numbers(14)]
        transfer_error_reply_plain transfer_failed_reply_def)
qed

lemma confirm_timeout_call:
  "call confirm_timeout_tool ''check'' (bank 50000000 500000000) =
     (Inr (''Current balance: 0.0500 SOL'' @ nl @ ''My wallet balance: 0.5000 SOL'' @ nl @
           ''Transfer failed: timeout. Please try again in a moment.''),
      paid,
      [GetBalance monitored, GetBalance funding, Transfer monitored (1 / 5),
       ConfirmTransaction ''signature1''])"
  by (simp add: call_low [OF check_resolves(2) example_getBalance(3) example_low(2)]
      top_up_confirm_error [OF example_getBalance(4) example_funded(2) timeout_steps(1,2)]
      variant_numbers example_numbers variant_fields example_texts [OF variant_numbers(13)]
      transfer_error_reply_plain transfer_failed_reply_def)

lemma submit_timeout_call:
  "call submit_timeout_tool ''check'' (bank 50000000 500000000) =
     (Inr (''Current balance: 0.0500 SOL'' @ nl @ ''My wallet balance: 0.5000 SOL'' @ nl @
           ''Transfer failed: timeout. Please try again in a moment.''),
      bank 50000000 500000000,
      [GetBalance monitored, GetBalance funding, Transfer monitored (1 / 5)])"
  by (simp add: call_low [OF check_resolves(3) example_getBalance(5) example_low(3)]
      top_up_submit_error [OF example_getBalance(6) example_funded(3) timeout_steps(3)]
      variant_numbers example_numbers variant_fields example_texts [OF variant_numbers(14)]
      transfer_error_reply_plain transfer_failed_reply_def)

theorem confirmation_unknown_counterexample:
  "fst (call confirm_timeout_tool ''check'' (bank 50000000 500000000)) =
     Inr (''Current balance: 0.0500 SOL'' @ nl @ ''My wallet balance: 0.5000 SOL'' @ nl @
          ''Transfer failed: timeout. Please try again in a moment.'') \<and>
   fst (call confirm_timeout_tool ''check'' (bank 50000000 500000000)) =
     fst (call submit_timeout_tool ''check'' (bank 50000000 500000000))"
  by (simp add: confirm_timeout_call submit_timeout_call)

lemma insufficient_funds_reply_includes:
  "str_includes (insufficient_funds_reply t balanceMessage required sourceWallet) sourceWallet"
  "str_includes (insufficient_funds_reply t balanceMessage required sourceWallet)
     (toFixed t 6 required)"
proof -
  let ?head = "balanceMessage @ nl @ nl @ ''I need some SOL to keep operating! '' @ folded_hands @
      nl @ ''Please send at least ''"
  let ?tail = "nl @ nl @
     ''This amount includes transaction fees. Once you've sent the SOL, let me know by saying '' @
     dquote @ ''check balance'' @ dquote @
     '' and I'll verify the funds and proceed with the top-up.''"
  have "str_includes
      ((?head @ toFixed t 6 required @ '' SOL to my address:'' @ nl) @ sourceWallet @ ?tail)
      sourceWallet"
    by (rule str_includes_append)
  then show "str_includes (insufficient_funds_reply t balanceMessage required sourceWallet)
      sourceWallet"
    by (simp add: insufficient_funds_reply_def)
  have "str_includes
      (?head @ toFixed t 6 required @ ('' SOL to my address:'' @ nl @ sourceWallet @ ?tail))
      (toFixed t 6 required)"
    by (rule str_includes_append)
  then show "str_includes (insufficient_funds_reply t balanceMessage required sourceWallet)
     (toFixed t 6 required)"
    by (simp add: insufficient_funds_reply_def)
qed

lemma scenario_call:
  "call example_tool ''check'' (bank 50000000 100000000) =
     (Inr (insufficient_funds_reply example_tool ''Current balance: 0.0500 SOL''
             (40001 / 200000) funding),
      bank 50000000 100000000, [GetBalance monitored, GetBalance funding])"
proof -
  have short: "number_less example_tool (inSol example_tool 100000000)
      (requiredAmount example_tool)"
    by (simp add: example_numbers)
  show ?thesis
    by (simp add: call_low [OF check_resolves(1) example_getBalance(1) example_low(1)]
        top_up_short [OF example_getBalance(2) short]
        example_numbers example_texts(1,2) [OF example_tool_fields(6)] example_tool_fields)
qed

lemma scenario_reply_amounts:
  "str_includes
     (insufficient_funds_reply example_tool ''Current balance: 0.0500 SOL''
        (40001 / 200000) funding) ''0.200005''"
  "\<not> str_includes
      (insufficient_funds_reply example_tool ''Current balance: 0.0500 SOL''
         (40001 / 200000) funding) ''0.100005''"
  unfolding example_texts(6) [OF example_tool_fields(6)]
  by (simp_all add: nl_def folded_hands_def dquote_def)

text \<open>
  C4. The claim does not hold for the amount: the request for funds names the funding
  address and the whole required amount, \<open>(topUpAmountSol + 0.000005).toFixed(6)\<close>, not
  the shortfall. In the scenario of the spec the text reads 0.200005.
\<close>

theorem insufficient_funds_reply_names_required_amount:
  assumes "targetWallet_of t input = Inr targetWallet"
    and "getBalance t targetWallet w = (Inr balance, w1)"
    and "number_less t (inSol t balance) (minBalanceSol t)"
    and "getBalance t (wallet_publicKey t) w1 = (Inr sourceBalance, w2)"
    and "number_less t (inSol t sourceBalance) (requiredAmount t)"
  shows "\<exists>reply. fst (call t input w) = Inr reply \<and>
           str_includes reply (wallet_publicKey t) \<and>
           str_includes reply (toFixed t 6 (requiredAmount t))"
  by (simp add: call_low [OF assms(1-3)] top_up_short [OF assms(4,5)]
      insufficient_funds_reply_includes)

theorem insufficient_funds_reply_names_required_amount_witness:
  "\<exists>reply. fst (call example_tool ''check'' (bank 50000000 100000000)) = Inr reply \<and>
     str_includes reply funding \<and> str_includes reply ''0.200005''"
proof -
  have short: "number_less example_tool (inSol example_tool 100000000)
      (requiredAmount example_tool)"
    by (simp add: example_numbers)
  show ?thesis
    using insufficient_funds_reply_names_required_amount
      [OF check_resolves(1) example_getBalance(1) [of 50000000 100000000] example_low(1)
        example_getBalance(2) [of 50000000 100000000] short]
    by (simp add: example_numbers example_tool_fields exact_toFixed_values)
qed

theorem shortfall_counterexample:
  "fst (call example_tool ''check'' (bank 50000000 100000000)) =
     Inr (insufficient_funds_reply example_tool ''Current balance: 0.0500 SOL''
            (40001 / 200000) funding) \<and>
   str_includes
     (insufficient_funds_reply example_tool ''Current balance: 0.0500 SOL''
        (40001 / 200000) funding) ''0.200005'' \<and>
   \<not> str_includes
       (insufficient_funds_reply example_tool ''Current balance: 0.0500 SOL''
          (40001 / 200000) funding) ''0.100005''"
  by (simp only: scenario_call scenario_reply_amounts fst_conv simp_thms)

text \<open>
  C5. After a submission and a confirmation that both succeeded, the reply is that of
  \<open>ToppedUp\<close>: it carries the old balance, the balance of the funding account as the
  solvency check read it before the transfer, and the new balance as the query after
  the confirmation returned it, whatever that is. The claim's remaining balance of the
  funding account is not in the reply.
\<close>

theorem topped_up_reply_reports_requeried_balance:
  assumes "targetWallet_of t input = Inr targetWallet"
    and "getBalance t targetWallet w = (Inr balance, w1)"
    and "number_less t (inSol t balance) (minBalanceSol t)"
    and "getBalance t (wallet_publicKey t) w1 = (Inr sourceBalance, w2)"
    and "\<not> number_less t (inSol t sourceBalance) (requiredAmount t)"
    and "transfer t targetWallet (topUpAmountSol t) w2 = (Inr signature, w3)"
    and "confirmTransaction t signature w3 = (Inr u, w4)"
    and "getBalance t targetWallet w4 = (Inr newBalance, w5)"
  shows "call t input w =
           (Inr (describe t
                   (ToppedUp (inSol t balance) (inSol t sourceBalance) (inSol t newBalance))),
            w5, [GetBalance targetWallet, GetBalance (wallet_publicKey t),
                 Transfer targetWallet (topUpAmountSol t), ConfirmTransaction signature,
                 GetBalance targetWallet])"
  by (simp add: call_low [OF assms(1-3)] top_up_confirmed [OF assms(4-8)])

lemma late_deposit_steps:
  "transfer late_deposit_tool monitored (topUpAmountSol late_deposit_tool)
     (bank 50000000 500000000) = (Inr ''signature1'', paid)"
  "confirmTransaction late_deposit_tool ''signature1'' paid =
     (Inr (), paid\<lparr>balances := (monitored, 350000000) # balances paid\<rparr>)"
  "getBalance late_deposit_tool monitored
     (paid\<lparr>balances := (monitored, 350000000) # balances paid\<rparr>) =
     (Inr 350000000, paid\<lparr>balances := (monitored, 350000000) # balances paid\<rparr>)"
  by (simp_all add: variant_fields ledger_getBalance_def ledger_transfer_paid balance_of_paid)
    (simp add: balance_of_def)

theorem topped_up_reply_reports_requeried_balance_witness:
  "call late_deposit_tool ''check'' (bank 50000000 500000000) =
     (Inr (''Current balance: 0.0500 SOL'' @ nl @ ''My wallet balance: 0.5000 SOL'' @ nl @
           ''Transfer successful! '' @ check_mark @ nl @ ''New balance: 0.3500 SOL''),
      paid\<lparr>balances := (monitored, 350000000) # balances paid\<rparr>,
      [GetBalance monitored, GetBalance funding, Transfer monitored (1 / 5),
       ConfirmTransaction ''signature1'', GetBalance monitored])"
  using topped_up_reply_reports_requeried_balance
    [OF check_resolves(5) example_getBalance(9) [of 50000000 500000000] example_low(5)
      example_getBalance(10) [of 50000000 500000000] example_funded(5) late_deposit_steps]
  by (simp add: variant_numbers example_numbers variant_fields
      example_texts [OF variant_numbers(16)])

lemma example_steps:
  "transfer example_tool monitored (topUpAmountSol example_tool)
     (bank 50000000 500000000) = (Inr ''signature1'', paid)"
  "confirmTransaction example_tool ''signature1'' paid = (Inr (), paid)"
  "getBalance example_tool monitored paid = (Inr 250000000, paid)"
  by (simp_all add: example_tool_fields ledger_confirm_def bank_getBalance ledger_transfer_paid)

lemma example_top_up:
  "call example_tool ''check'' (bank 50000000 500000000) =
     (Inr (''Current balance: 0.0500 SOL'' @ nl @ ''My wallet balance: 0.5000 SOL'' @ nl @
           ''Transfer successful! '' @ check_mark @ nl @ ''New balance: 0.2500 SOL''),
      paid,
      [GetBalance monitored, GetBalance funding, Transfer monitored (1 / 5),
       ConfirmTransaction ''signature1'', GetBalance monitored])"
  by (simp add: call_low [OF check_resolves(1) example_getBalance(1) example_low(1)]
      top_up_confirmed [OF example_getBalance(2) example_funded(1) example_steps]
      example_numbers example_tool_fields example_texts [OF example_tool_fields(6)])

theorem remaining_balance_counterexample:
  "fst (call example_tool ''check'' (bank 50000000 500000000)) =
     Inr (''Current balance: 0.0500 SOL'' @ nl @ ''My wallet balance: 0.5000 SOL'' @ nl @
          ''Transfer successful! '' @ check_mark @ nl @ ''New balance: 0.2500 SOL'') \<and>
   balance_of (fst (snd (call example_tool ''check'' (bank 50000000 500000000)))) funding =
     299995000 \<and>
   toFixed example_tool 4 (inSol example_tool 299995000) = ''0.3000'' \<and>
   \<not> str_includes
       (''Current balance: 0.0500 SOL'' @ nl @ ''My wallet balance: 0.5000 SOL'' @ nl @
        ''Transfer successful! '' @ check_mark @ nl @ ''New balance: 0.2500 SOL'')
       ''0.3000''"
  unfolding example_top_up
  by (simp add: balance_of_paid nl_def check_mark_def example_numbers example_tool_fields
      exact_toFixed_values)

lemma targetWallet_of_default:
  "targetWallet_of t [] = Inr (defaultWallet t)"
  "targetWallet_of t ''check'' = Inr (defaultWallet t)"
  by (simp_all add: targetWallet_of_def)

lemma call_catch_invalid:
  "str_includes msg ''Invalid public key'' \<Longrightarrow> call_catch (Error msg) = invalid_input_reply"
  by (simp add: call_catch_def)

lemma base58_PublicKey_values:
  "base58_PublicKey ''abc'' = Inl (Error ''Invalid public key input'')"
  "base58_PublicKey ''transfer 0.001'' = Inl (Error ''Non-base58 character'')"
  by (simp_all add: base58_PublicKey_def base58_def)

lemma call_catch_values:
  "call_catch (Error ''Invalid public key input'') = invalid_input_reply"
  "call_catch (Error ''Non-base58 character'') = ''Error checking balance: Non-base58 character''"
  by (simp_all add: call_catch_def error_checking_reply_def)

lemma transfer_request_shape:
  "transfer_request numberText \<noteq> []"
  "transfer_request numberText \<noteq> ''check''"
  by (simp_all add: transfer_request_def)

lemma transfer_request_not_base58:
  "base58_PublicKey (transfer_request numberText) = Inl (Error ''Non-base58 character'')"
  by (simp add: base58_PublicKey_def transfer_request_def base58_def)

lemma example_transfer_request: "transfer_request example_numberToString = ''transfer 0.001''"
  by (simp add: transfer_request_def example_numberToString_def)

lemma tool_call_balanceMonitor:
  "tool_call (balanceMonitor_of t) = call t"
  "name (balanceMonitor_of t) = ''balance_monitor''"
  by (simp_all add: balanceMonitor_of_def)

lemma submissions_append: "submissions (xs @ ys) = submissions xs @ submissions ys"
  by (simp add: submissions_def)

lemma submissions_Log: "submissions (Log s # evs) = submissions evs"
  by (simp add: submissions_def)

lemma chat_transfer_parse_error:
  assumes "call t ''check'' w = (Inr result, w1, evs)"
    and "PublicKey t (transfer_request numberText) = Inl e"
  shows "chat_transfer numberText (balanceMonitor_of t # tools) w =
           Some (Continue, w1,
                 if \<not> str_includes result ''Agent wallet balance: 0.0000 SOL''
                 then evs @ [Log result] @ [] @ [Log (call_catch e)]
                 else evs @ [Log result])"
  using assms
  by (simp add: chat_transfer_def tool_call_balanceMonitor
      call_parse_error transfer_request_shape)

text \<open>
  C6. The empty string and \<open>'check'\<close> take the default wallet whatever the address
  constructor is, so without a call of it. For any other input that the constructor
  refuses, the call returns with the ledger untouched and no call issued; the reply is
  the invalid-address message when the constructor's error message contains
  \<open>'Invalid public key'\<close>. The claim does not hold for every refusal: a refusal with
  another message is reported as \<open>'Error checking balance: ...'\<close>.
\<close>

theorem invalid_input_before_any_query:
  "targetWallet_of (t\<lparr>PublicKey := parse\<rparr>) [] = Inr (defaultWallet t) \<and>
   targetWallet_of (t\<lparr>PublicKey := parse\<rparr>) ''check'' = Inr (defaultWallet t) \<and>
   (input \<noteq> [] \<and> input \<noteq> ''check'' \<and> PublicKey t input = Inl e \<longrightarrow>
      call t input w = (Inr (call_catch e), w, [])) \<and>
   (input \<noteq> [] \<and> input \<noteq> ''check'' \<and> PublicKey t input = Inl (Error msg) \<and>
    str_includes msg ''Invalid public key'' \<longrightarrow>
      call t input w = (Inr invalid_input_reply, w, []))"
  by (simp add: targetWallet_of_default call_parse_error call_catch_invalid)

theorem invalid_input_before_any_query_witness:
  "call example_tool ''abc'' (bank 50000000 500000000) =
     (Inr invalid_input_reply, bank 50000000 500000000, []) \<and>
   call example_tool ''abc'' (bank 50000000 500000000) =
     (Inr (call_catch (Error ''Invalid public key input'')), bank 50000000 500000000, [])"
proof -
  have refused: "''abc'' \<noteq> [] \<and> ''abc'' \<noteq> ''check'' \<and>
      PublicKey example_tool ''abc'' = Inl (Error ''Invalid public key input'')"
    by (simp add: example_tool_fields base58_PublicKey_values)
  have named: "''abc'' \<noteq> [] \<and> ''abc'' \<noteq> ''check'' \<and>
      PublicKey example_tool ''abc'' = Inl (Error ''Invalid public key input'') \<and>
      str_includes ''Invalid public key input'' ''Invalid public key''"
    by (simp add: example_tool_fields base58_PublicKey_values)
  note at_abc = invalid_input_before_any_query
    [where t = example_tool and parse = "PublicKey example_tool" and input = "''abc''"
      and e = "Error ''Invalid public key input''" and w = "bank 50000000 500000000"
      and msg = "''Invalid public key input''"]
  from at_abc refused named show ?thesis
    by blast
qed

theorem invalid_input_counterexample:
  "call example_tool ''transfer 0.001'' (bank 50000000 500000000) =
     (Inr ''Error checking balance: Non-base58 character'', bank 50000000 500000000, []) \<and>
   ''Error checking balance: Non-base58 character'' \<noteq> invalid_input_reply"
proof -
  have "PublicKey example_tool ''transfer 0.001'' = Inl (Error ''Non-base58 character'')"
    by (simp add: example_tool_fields base58_PublicKey_values)
  then have "call example_tool ''transfer 0.001'' (bank 50000000 500000000) =
      (Inr (call_catch (Error ''Non-base58 character'')), bank 50000000 500000000, [])"
    by (intro call_parse_error) simp_all
  then show ?thesis
    by (simp add: call_catch_values invalid_input_reply_def)
qed

lemma confirm_expired_call:
  "call confirm_expired_tool ''check'' (bank 50000000 500000000) =
     (Inr (describe confirm_expired_tool
             (TransferFailed (1 / 20) (Some (1 / 2))
                (Some ''Signature has expired: block height exceeded.''))),
      paid,
      [GetBalance monitored, GetBalance funding, Transfer monitored (1 / 5),
       ConfirmTransaction ''signature1''])"
  by (simp add: call_low [OF check_resolves(4) example_getBalance(7) example_low(4)]
      top_up_confirm_error [OF example_getBalance(8) example_funded(4) timeout_steps(4,5)]
      variant_numbers example_numbers variant_fields transfer_error_reply_plain)

text \<open>
  C7. Every call of the tool returns a reply and throws nothing, and the reply is the
  text of one of the outcomes the code has: \<open>Healthy\<close>, \<open>ToppedUp\<close>, \<open>InsufficientFunds\<close>,
  the two replies to a fee-payer error, \<open>TransferFailed\<close>, \<open>InvalidInput\<close>, or the reply of
  line 94. So the prompts of the chat that go to the tool end in the next prompt and
  never in \<open>process.exit\<close>. There is no \<open>ConfirmationUnknown\<close> among the outcomes: a
  confirmation that fails is answered as a failed transfer.
\<close>

theorem call_always_replies:
  "(\<exists>outcome w' calls. call t input w = (Inr (describe t outcome), w', calls)) \<and>
   (\<exists>w' evs. chat_balance (balanceMonitor_of t # tools) w = Some (Continue, w', evs)) \<and>
   (\<exists>w' evs. chat_transfer numberText (balanceMonitor_of t # tools) w = Some (Continue, w', evs))"
proof (intro conjI)
  show "\<exists>outcome w' calls. call t input w = (Inr (describe t outcome), w', calls)"
    by (rule call_outcome)
  obtain result w1 evs where first: "call t ''check'' w = (Inr result, w1, evs)"
    using call_returns [of t "''check''" w] by blast
  then show "\<exists>w' evs. chat_balance (balanceMonitor_of t # tools) w = Some (Continue, w', evs)"
    by (simp add: chat_balance_def tool_call_balanceMonitor)
  obtain result2 w2 evs2 where
    "call t (transfer_request numberText) w1 = (Inr result2, w2, evs2)"
    using call_returns [of t "transfer_request numberText" w1] by blast
  with first
  show "\<exists>w' evs. chat_transfer numberText (balanceMonitor_of t # tools) w = Some (Continue, w', evs)"
    by (simp add: chat_transfer_def tool_call_balanceMonitor)
qed

theorem call_always_replies_witness:
  "(\<exists>outcome w' calls.
      call submit_timeout_tool ''check'' (bank 50000000 500000000) =
        (Inr (describe submit_timeout_tool outcome), w', calls)) \<and>
   (\<exists>w' evs.
      chat_balance [balanceMonitor_of submit_timeout_tool] (bank 50000000 500000000) =
        Some (Continue, w', evs))"
  using call_always_replies
    [where t = submit_timeout_tool and input = "''check''" and w = "bank 50000000 500000000"
      and tools = "[]"]
  by blast

theorem confirmation_outcome_counterexample:
  "call confirm_expired_tool ''check'' (bank 50000000 500000000) =
     (Inr (describe confirm_expired_tool
             (TransferFailed (1 / 20) (Some (1 / 2))
                (Some ''Signature has expired: block height exceeded.''))),
      paid,
      [GetBalance monitored, GetBalance funding, Transfer monitored (1 / 5),
       ConfirmTransaction ''signature1'']) \<and>
   describe confirm_expired_tool
     (TransferFailed (1 / 20) (Some (1 / 2))
        (Some ''Signature has expired: block height exceeded.'')) =
     ''Current balance: 0.0500 SOL'' @ nl @ ''My wallet balance: 0.5000 SOL'' @ nl @
     ''Transfer failed: Signature has expired: block height exceeded.. '' @
     ''Please try again in a moment.''"
  by (simp add: confirm_expired_call transfer_failed_reply_def
      example_texts [OF variant_numbers(15)])

lemma example_reply_no_agent_wallet:
  "\<not> str_includes
      (''Current balance: 0.0500 SOL'' @ nl @ ''My wallet balance: 0.5000 SOL'' @ nl @
       ''Transfer successful! '' @ check_mark @ nl @ ''New balance: 0.2500 SOL'')
      ''Agent wallet balance: 0.0000 SOL''"
  by (simp add: nl_def check_mark_def)

text \<open>
  C10. The text the chat passes for a transfer is \<open>'transfer '\<close> followed by the amount:
  it is never empty and never \<open>'check'\<close>, so the tool hands it to the address
  constructor. It contains a blank, so a constructor over a base-58 decoder refuses it
  with the decoder's message, and the reply is \<open>'Error checking balance: Non-base58
  character'\<close>, not the invalid-address message. Whenever the constructor refuses it, that
  call returns with no ledger call and the ledger untouched, and the transfers of the
  whole branch are those of its first call, the one with \<open>'check'\<close>, which can submit a
  top-up.
\<close>

theorem chat_transfer_request_goes_to_address_constructor:
  "transfer_request numberText \<noteq> [] \<and> transfer_request numberText \<noteq> ''check'' \<and>
   targetWallet_of t (transfer_request numberText) = PublicKey t (transfer_request numberText) \<and>
   base58_PublicKey (transfer_request numberText) = Inl (Error ''Non-base58 character'') \<and>
   (PublicKey t (transfer_request numberText) = Inl e \<longrightarrow>
      call t (transfer_request numberText) wa = (Inr (call_catch e), wa, [])) \<and>
   (PublicKey t = base58_PublicKey \<longrightarrow>
      call t (transfer_request numberText) wa =
        (Inr (error_checking_reply ''Non-base58 character''), wa, [])) \<and>
   (call t ''check'' w = (Inr result, wa, evs) \<and>
    PublicKey t (transfer_request numberText) = Inl e \<longrightarrow>
      (\<exists>evs'. chat_transfer numberText (balanceMonitor_of t # tools) w =
                 Some (Continue, wa, evs') \<and>
              submissions evs' = submissions evs))"
proof (intro conjI impI)
  show "transfer_request numberText \<noteq> []" "transfer_request numberText \<noteq> ''check''"
    by (rule transfer_request_shape)+
  show "targetWallet_of t (transfer_request numberText) =
      PublicKey t (transfer_request numberText)"
    by (simp add: targetWallet_of_def transfer_request_shape)
  show "base58_PublicKey (transfer_request numberText) = Inl (Error ''Non-base58 character'')"
    by (rule transfer_request_not_base58)
next
  assume "PublicKey t (transfer_request numberText) = Inl e"
  then show "call t (transfer_request numberText) wa = (Inr (call_catch e), wa, [])"
    by (simp add: call_parse_error transfer_request_shape)
next
  assume "PublicKey t = base58_PublicKey"
  then have "PublicKey t (transfer_request numberText) = Inl (Error ''Non-base58 character'')"
    by (simp add: transfer_request_not_base58)
  then have "call t (transfer_request numberText) wa =
      (Inr (call_catch (Error ''Non-base58 character'')), wa, [])"
    by (simp add: call_parse_error transfer_request_shape)
  then show "call t (transfer_request numberText) wa =
      (Inr (error_checking_reply ''Non-base58 character''), wa, [])"
    by (simp add: call_catch_def)
next
  assume "call t ''check'' w = (Inr result, wa, evs) \<and>
    PublicKey t (transfer_request numberText) = Inl e"
  then show "\<exists>evs'. chat_transfer numberText (balanceMonitor_of t # tools) w =
                 Some (Continue, wa, evs') \<and>
              submissions evs' = submissions evs"
    by (simp add: chat_transfer_parse_error submissions_append submissions_Log)
      (simp add: submissions_def)
qed

theorem chat_transfer_request_goes_to_address_constructor_witness:
  "call example_tool ''transfer 0.001'' paid =
     (Inr ''Error checking balance: Non-base58 character'', paid, []) \<and>
   (\<exists>evs'. chat_transfer example_numberToString [balanceMonitor_of example_tool]
              (bank 50000000 500000000) = Some (Continue, paid, evs') \<and>
           submissions evs' = [Transfer monitored (1 / 5)])"
proof -
  have refused: "PublicKey example_tool (transfer_request example_numberToString) =
      Inl (Error ''Non-base58 character'')"
    by (simp add: example_transfer_request example_tool_fields base58_PublicKey_values)
  have checked: "call example_tool ''check'' (bank 50000000 500000000) =
       (Inr (''Current balance: 0.0500 SOL'' @ nl @ ''My wallet balance: 0.5000 SOL'' @ nl @
             ''Transfer successful! '' @ check_mark @ nl @ ''New balance: 0.2500 SOL''),
        paid,
        [GetBalance monitored, GetBalance funding, Transfer monitored (1 / 5),
         ConfirmTransaction ''signature1'', GetBalance monitored]) \<and>
     PublicKey example_tool (transfer_request example_numberToString) =
       Inl (Error ''Non-base58 character'')"
    by (simp add: example_top_up refused)
  note at_example = chat_transfer_request_goes_to_address_constructor
    [where t = example_tool and numberText = example_numberToString
      and e = "Error ''Non-base58 character''"
      and w = "bank 50000000 500000000" and wa = paid
      and result = "''Current balance: 0.0500 SOL'' @ nl @ ''My wallet balance: 0.5000 SOL'' @
          nl @ ''Transfer successful! '' @ check_mark @ nl @ ''New balance: 0.2500 SOL''"
      and evs = "[GetBalance monitored, GetBalance funding, Transfer monitored (1 / 5),
         ConfirmTransaction ''signature1'', GetBalance monitored]"
      and tools = "[]"]
  from at_example refused checked show ?thesis
    by (simp add: example_transfer_request submissions_def call_catch_values)
qed

theorem chat_transfer_counterexample:
  "chat_transfer example_numberToString [balanceMonitor_of example_tool]
     (bank 50000000 500000000) =
     Some (Continue, paid,
           [GetBalance monitored, GetBalance funding, Transfer monitored (1 / 5),
            ConfirmTransaction ''signature1'', GetBalance monitored,
            Log (''Current balance: 0.0500 SOL'' @ nl @ ''My wallet balance: 0.5000 SOL'' @ nl @
                 ''Transfer successful! '' @ check_mark @ nl @ ''New balance: 0.2500 SOL''),
            Log ''Error checking balance: Non-base58 character'']) \<and>
   ''Error checking balance: Non-base58 character'' \<noteq> invalid_input_reply"
proof -
  have "PublicKey example_tool (transfer_request example_numberToString) =
      Inl (Error ''Non-base58 character'')"
    by (simp add: example_transfer_request example_tool_fields base58_PublicKey_values)
  from chat_transfer_parse_error [OF example_top_up this, of "[]"] show ?thesis
    using example_reply_no_agent_wallet
    by (simp add: call_catch_values invalid_input_reply_def)
qed









text \<open>
  C9. The loop has one state only. It never returns, from any state and with any agent,
  tools and interval: the source has no \<open>Cancelled\<close> state and reads no cancellation, so
  nothing the loop is given can stop it, between passes or within one.
\<close>

theorem loop_has_no_terminal_state:
  "runAutonomousMode agent tools interval s = None \<and>
   runAutonomousMode agent tools interval (iteration agent tools interval s) = None \<and>
   main_auto agent tools w = None"
  by (simp add: runAutonomousMode_never_returns main_auto_def)

theorem cancellation_counterexample:
  "main_auto example_agent [balanceMonitor_of example_tool] (bank 150000000 100000000) = None \<and>
   runAutonomousMode example_agent [balanceMonitor_of example_tool] default_interval
     (iteration example_agent [balanceMonitor_of example_tool] default_interval
        (bank 150000000 100000000, [])) = None"
  by (simp add: runAutonomousMode_never_returns main_auto_def)

end
